theory Spec2Isabelle
  imports Main
begin

section \<open>JavaScript strings\<close>

text \<open>
  A JavaScript string is modelled as a \<^typ>\<open>string\<close>: a list of 8-bit characters, read as
  the code units U+0000 .. U+00FF. The character classes below are the ECMAScript ones
  restricted to that range.
\<close>

text \<open>\<^verbatim>\<open>.\<close> of a regular expression without the \<^verbatim>\<open>s\<close> flag matches every
  character but a line terminator; \<^verbatim>\<open>^\<close> with the \<^verbatim>\<open>m\<close> flag matches after one.\<close>

definition isLineTerminator :: "char \<Rightarrow> bool" where
  "isLineTerminator c \<longleftrightarrow> c = CHR 0x0A \<or> c = CHR 0x0D"

text \<open>The characters \<^verbatim>\<open>String.prototype.trim\<close> strips (white space and line terminators).\<close>

definition isWhiteSpace :: "char \<Rightarrow> bool" where
  "isWhiteSpace c \<longleftrightarrow>
     c = CHR 0x09 \<or> c = CHR 0x0A \<or> c = CHR 0x0B \<or> c = CHR 0x0C \<or> c = CHR 0x0D \<or>
     c = CHR 0x20 \<or> c = CHR 0xA0"

definition trim :: "string \<Rightarrow> string" where
  "trim s = rev (dropWhile isWhiteSpace (rev (dropWhile isWhiteSpace s)))"

text \<open>\<^verbatim>\<open>s.split(d)\<close> for a one-character separator: never the empty array.\<close>

fun split :: "char \<Rightarrow> string \<Rightarrow> string list" where
  "split d [] = [[]]"
| "split d (c # cs) =
     (if c = d then [] # split d cs
      else (case split d cs of t # ts \<Rightarrow> (c # t) # ts | [] \<Rightarrow> [[c]]))"

text \<open>\<^verbatim>\<open>s.startsWith(p)\<close>\<close>

fun startsWith :: "string \<Rightarrow> string \<Rightarrow> bool" where
  "startsWith s [] = True"
| "startsWith [] (p # ps) = False"
| "startsWith (c # cs) (p # ps) = (c = p \<and> startsWith cs ps)"

text \<open>\<^verbatim>\<open>String.prototype.toLowerCase\<close> on one code unit below U+0100.\<close>

definition toLowerChar :: "char \<Rightarrow> char" where
  "toLowerChar c =
     (let n = (of_char c :: nat)
      in if (65 \<le> n \<and> n \<le> 90) \<or> (192 \<le> n \<and> n \<le> 222 \<and> n \<noteq> 215)
         then char_of (n + 32) else c)"

definition toLowerCase :: "string \<Rightarrow> string" where
  "toLowerCase s = map toLowerChar s"

text \<open>The decimal numeral a template literal prints for a non-negative integer.\<close>

function decimal :: "nat \<Rightarrow> string" where
  "decimal n =
     (if n < 10 then [char_of (48 + n)]
      else decimal (n div 10) @ [char_of (48 + n mod 10)])"
  by pat_completeness auto
termination
  by (relation "measure id") auto

declare decimal.simps [simp del]

section \<open>Table rows\<close>

text \<open>
  The row test of both table renderers is
  \<^verbatim>\<open>row.trim().startsWith('|') && !row.trim().match(/^\|[ -:]*\|[ -:]*\|/)\<close>.
  In the class \<^verbatim>\<open>[ -:]\<close> the hyphen stands between two characters, so the class is the
  range U+0020 .. U+003A (space, punctuation, the digits and the colon). The pipe is not
  in the range, hence each greedy \<^verbatim>\<open>[ -:]*\<close> runs up to the first character outside
  the range, which must then be the pipe.
\<close>

definition inSeparatorClass :: "char \<Rightarrow> bool" where
  "inSeparatorClass c \<longleftrightarrow> 32 \<le> (of_char c :: nat) \<and> (of_char c :: nat) \<le> 58"

definition matchesSeparator :: "string \<Rightarrow> bool" where
  "matchesSeparator s =
     (case s of
        [] \<Rightarrow> False
      | c1 # r1 \<Rightarrow> c1 = CHR ''|'' \<and>
          (case dropWhile inSeparatorClass r1 of
             [] \<Rightarrow> False
           | c2 # r2 \<Rightarrow> c2 = CHR ''|'' \<and>
               (case dropWhile inSeparatorClass r2 of
                  [] \<Rightarrow> False
                | c3 # r3 \<Rightarrow> c3 = CHR ''|'')))"

definition isContentRow :: "string \<Rightarrow> bool" where
  "isContentRow row \<longleftrightarrow> startsWith (trim row) ''|'' \<and> \<not> matchesSeparator (trim row)"

text \<open>\<^verbatim>\<open>contentBlock.trim().split('\n')\<close>\<close>

definition contentRows :: "string \<Rightarrow> string list" where
  "contentRows contentBlock = split CHR 0x0A (trim contentBlock)"

section \<open>The timetable (row-span) parser\<close>

text \<open>
  \<^verbatim>\<open>rowObject = { day: cell_Day, subjectCells: [cell_Subject, cell_Chapters, cell_Time] }\<close>;
  \<open>day\<close> is \<^verbatim>\<open>null\<close> (here \<open>None\<close>) until a row names a day.
\<close>

record rowObject =
  day :: "string option"
  subjectCells :: "string list"

record groupEntry =
  count :: nat
  firstRowIndex :: nat

text \<open>
  The three variables the loop over the rows updates. \<^verbatim>\<open>rowGroups\<close> is a plain object
  used as a dictionary: its keys are property names, so the key of \<^verbatim>\<open>null\<close> is the
  string \<^verbatim>\<open>"null"\<close>, which is also what a template literal prints for it. (The only
  keys ever read are \<^verbatim>\<open>"null"\<close> and strings that start with \<^verbatim>\<open>Day\<close>; no property
  inherited from \<^verbatim>\<open>Object.prototype\<close> has such a name.)
\<close>

record parseState =
  tableData :: "rowObject list"
  rowGroups :: "string \<rightharpoonup> groupEntry"
  currentDay :: "string option"

definition propertyKey :: "string option \<Rightarrow> string" where
  "propertyKey d = (case d of None \<Rightarrow> ''null'' | Some s \<Rightarrow> s)"

definition initialState :: parseState where
  "initialState = \<lparr>tableData = [], rowGroups = Map.empty, currentDay = None\<rparr>"

text \<open>\<^verbatim>\<open>cells.filter((c, i) => i > 0 && i < cells.length - 1)\<close>\<close>

definition rawCellsOf :: "string list \<Rightarrow> string list" where
  "rawCellsOf cells =
     map (\<lambda>i. cells ! i) (filter (\<lambda>i. 0 < i \<and> i + 1 < length cells) [0..<length cells])"

text \<open>\<^verbatim>\<open>while (rawCells.length < 4) rawCells.push('')\<close>\<close>

definition padCells :: "string list \<Rightarrow> string list" where
  "padCells rawCells = rawCells @ replicate (4 - length rawCells) []"

text \<open>\<^verbatim>\<open>rawCells[i] || ''\<close>\<close>

definition cellAt :: "string list \<Rightarrow> nat \<Rightarrow> string" where
  "cellAt rawCells i = (if i < length rawCells then rawCells ! i else [])"

text \<open>\<^verbatim>\<open>cell_Subject.match(/^[0-9.]*$/)\<close>\<close>

definition isDigitOrDot :: "char \<Rightarrow> bool" where
  "isDigitOrDot c \<longleftrightarrow> (48 \<le> (of_char c :: nat) \<and> (of_char c :: nat) \<le> 57) \<or> c = CHR ''.''"

definition shiftCondition :: "string \<Rightarrow> string \<Rightarrow> string \<Rightarrow> string \<Rightarrow> bool" where
  "shiftCondition cell_Day cell_Subject cell_Chapters cell_Time \<longleftrightarrow>
     \<not> startsWith cell_Day ''Day'' \<and> list_all isDigitOrDot cell_Subject \<and>
     cell_Chapters \<noteq> [] \<and> cell_Time = []"

text \<open>The four cells \<open>(cell_Day, cell_Subject, cell_Chapters, cell_Time)\<close> after the
  shift correction.\<close>

definition shiftCorrect :: "string list \<Rightarrow> string \<times> string \<times> string \<times> string" where
  "shiftCorrect rawCells =
     (let cell_Day = cellAt rawCells 0;
          cell_Subject = cellAt rawCells 1;
          cell_Chapters = cellAt rawCells 2;
          cell_Time = cellAt rawCells 3
      in if shiftCondition cell_Day cell_Subject cell_Chapters cell_Time
         then (cell_Day, [], cell_Subject, cell_Chapters)
         else (cell_Day, cell_Subject, cell_Chapters, cell_Time))"

text \<open>The body of \<^verbatim>\<open>if (rawCells.length >= 3) { ... }\<close>.\<close>

definition addRow :: "parseState \<Rightarrow> string list \<Rightarrow> parseState" where
  "addRow st rawCells =
     (case shiftCorrect (padCells rawCells) of
        (cell_Day, cell_Subject, cell_Chapters, cell_Time) \<Rightarrow>
          let currentDay' = (if startsWith cell_Day ''Day'' then Some cell_Day else currentDay st);
              rowDay = (if startsWith cell_Day ''Day'' then Some cell_Day else currentDay');
              tableData' = tableData st @
                [\<lparr>day = rowDay, subjectCells = [cell_Subject, cell_Chapters, cell_Time]\<rparr>];
              key = propertyKey rowDay;
              rowGroups' =
                (case rowGroups st key of
                   Some g \<Rightarrow> (rowGroups st)(key \<mapsto> g\<lparr>count := count g + 1\<rparr>)
                 | None \<Rightarrow>
                     (rowGroups st)(key \<mapsto> \<lparr>count = 1, firstRowIndex = length tableData' - 1\<rparr>))
          in \<lparr>tableData = tableData', rowGroups = rowGroups', currentDay = currentDay'\<rparr>)"

text \<open>The callback of \<^verbatim>\<open>forEach(row => ...)\<close>.\<close>

definition parseRow :: "parseState \<Rightarrow> string \<Rightarrow> parseState" where
  "parseRow st row =
     (if isContentRow row
      then (let rawCells = rawCellsOf (map trim (split CHR ''|'' row))
            in if length rawCells \<ge> 3 then addRow st rawCells else st)
      else st)"

definition parseContent :: "string \<Rightarrow> parseState" where
  "parseContent contentBlock = foldl parseRow initialState (contentRows contentBlock)"

section \<open>Rendering\<close>

definition th :: "string \<Rightarrow> string" where
  \<open>th h = ''<th style="text-align: left; font-weight: bold; background-color: #f2f2f2;">'' @ h @ ''</th>''\<close>

definition td :: "string \<Rightarrow> string" where
  \<open>td c = ''<td style="text-align: left;">'' @ c @ ''</td>''\<close>

definition dayCellOpen :: "nat \<Rightarrow> string" where
  \<open>dayCellOpen n =
     ''<td rowspan="'' @ decimal n @
     ''" style="text-align: left; font-weight: bold; background-color: #e9e9e9;">''\<close>

definition dayCell :: "nat \<Rightarrow> string option \<Rightarrow> string" where
  "dayCell n d = dayCellOpen n @ propertyKey d @ ''</td>''"

definition tableOpen :: "string list \<Rightarrow> string" where
  \<open>tableOpen headers =
     ''<table class="table table-bordered table-striped mt-3"><thead>'' @
     ''<tr>'' @ concat (map th headers) @ ''</tr>'' @ ''</thead><tbody>''\<close>

definition tableClose :: string where
  "tableClose = ''</tbody></table>''"

text \<open>
  Reading \<^verbatim>\<open>group.firstRowIndex\<close> when \<^verbatim>\<open>rowGroups[day]\<close> is \<^verbatim>\<open>undefined\<close> throws a
  \<^verbatim>\<open>TypeError\<close>; that is the only place where the renderer can throw.
\<close>

datatype jsError = TypeError

definition renderRow :: "(string \<rightharpoonup> groupEntry) \<Rightarrow> nat \<Rightarrow> rowObject \<Rightarrow> jsError + string" where
  "renderRow groups index rowData =
     (case groups (propertyKey (day rowData)) of
        None \<Rightarrow> Inl TypeError
      | Some g \<Rightarrow>
          Inr (''<tr>'' @
               (if index = firstRowIndex g then dayCell (count g) (day rowData) else []) @
               concat (map td (subjectCells rowData)) @
               ''</tr>''))"

text \<open>\<^verbatim>\<open>tableData.forEach((rowData, index) => ...)\<close>, from row \<open>index\<close> on.\<close>

fun renderRows :: "(string \<rightharpoonup> groupEntry) \<Rightarrow> nat \<Rightarrow> rowObject list \<Rightarrow> jsError + string" where
  "renderRows groups index [] = Inr []"
| "renderRows groups index (rowData # rest) =
     (case renderRow groups index rowData of
        Inl e \<Rightarrow> Inl e
      | Inr html \<Rightarrow>
          (case renderRows groups (Suc index) rest of
             Inl e \<Rightarrow> Inl e
           | Inr others \<Rightarrow> Inr (html @ others)))"

definition renderTimetable :: "string list \<Rightarrow> string \<Rightarrow> jsError + string" where
  "renderTimetable headers contentBlock =
     (let st = parseContent contentBlock
      in case renderRows (rowGroups st) 0 (tableData st) of
           Inl e \<Rightarrow> Inl e
         | Inr body \<Rightarrow> Inr (tableOpen headers @ body @ tableClose))"

section \<open>The simple table\<close>

text \<open>\<^verbatim>\<open>row.split('|').map(c => c.trim()).filter(c => c)\<close>\<close>

definition simpleCells :: "string \<Rightarrow> string list" where
  "simpleCells row = filter (\<lambda>c. c \<noteq> []) (map trim (split CHR ''|'' row))"

definition simpleRow :: "string \<Rightarrow> string" where
  "simpleRow row =
     (if isContentRow row
      then (let cells = simpleCells row
            in if length cells > 0 then ''<tr>'' @ concat (map td cells) @ ''</tr>'' else [])
      else [])"

definition renderSimple :: "string list \<Rightarrow> string \<Rightarrow> string" where
  "renderSimple headers contentBlock =
     tableOpen headers @ concat (map simpleRow (contentRows contentBlock)) @ tableClose"

section \<open>Classification\<close>

text \<open>\<^verbatim>\<open>h.match(/^[-: ]+$/)\<close>\<close>

definition isSeparatorLabel :: "string \<Rightarrow> bool" where
  "isSeparatorLabel h \<longleftrightarrow>
     h \<noteq> [] \<and> list_all (\<lambda>c. c = CHR ''-'' \<or> c = CHR '':'' \<or> c = CHR '' '') h"

definition headersOf :: "string \<Rightarrow> string list" where
  "headersOf headerLine =
     filter (\<lambda>h. h \<noteq> [] \<and> \<not> isSeparatorLabel h) (map trim (split CHR ''|'' headerLine))"

text \<open>\<^verbatim>\<open>headers.length >= 4 && headers[0].toLowerCase() === 'day'\<close>\<close>

definition isTimetable :: "string list \<Rightarrow> bool" where
  "isTimetable headers \<longleftrightarrow> length headers \<ge> 4 \<and> toLowerCase (headers ! 0) = ''day''"

text \<open>The callback of the table pass: \<^verbatim>\<open>(match, headerLine, contentBlock) => ...\<close>\<close>

definition renderTable :: "string \<Rightarrow> string \<Rightarrow> jsError + string" where
  "renderTable headerLine contentBlock =
     (let headers = headersOf headerLine
      in if \<not> isTimetable headers then Inr (renderSimple headers contentBlock)
         else renderTimetable headers contentBlock)"

section \<open>The substitution passes\<close>

text \<open>
  Each pass is \<^verbatim>\<open>html = html.replace(/.../g, ...)\<close>: the matches are found from left to
  right, the search resumes where a match ended, and text between matches is copied.
  The scanners below read the regular expressions of the source as follows.
\<close>

text \<open>The first occurrence of \<open>pat\<close>: the text before it and the text after it. This is
  how a lazy \<^verbatim>\<open>[\s\S]*?\<close> (or \<^verbatim>\<open>.*?\<close> with the \<^verbatim>\<open>s\<close> flag) followed by a literal
  matches.\<close>

fun splitAt :: "string \<Rightarrow> string \<Rightarrow> (string \<times> string) option" where
  "splitAt pat [] = (if pat = [] then Some ([], []) else None)"
| "splitAt pat (c # cs) =
     (if startsWith (c # cs) pat then Some ([], drop (length pat) (c # cs))
      else map_option (\<lambda>(before, after). (c # before, after)) (splitAt pat cs))"

text \<open>The same for a lazy \<^verbatim>\<open>.*?\<close> without the \<^verbatim>\<open>s\<close> flag: the text before the
  occurrence holds no line terminator.\<close>

fun splitAtInLine :: "string \<Rightarrow> string \<Rightarrow> (string \<times> string) option" where
  "splitAtInLine pat [] = (if pat = [] then Some ([], []) else None)"
| "splitAtInLine pat (c # cs) =
     (if startsWith (c # cs) pat then Some ([], drop (length pat) (c # cs))
      else if isLineTerminator c then None
      else map_option (\<lambda>(before, after). (c # before, after)) (splitAtInLine pat cs))"

lemma splitAt_length: "splitAt pat s = Some (before, after) \<Longrightarrow> length after \<le> length s"
  by (induction s arbitrary: before) (auto split: if_splits)

lemma splitAtInLine_length:
  "splitAtInLine pat s = Some (before, after) \<Longrightarrow> length after \<le> length s"
  by (induction s arbitrary: before) (auto split: if_splits)

lemma replaceBetween_shorter:
  assumes "(if dotAll then splitAt closer (drop (length opener) (c # cs))
            else splitAtInLine closer (drop (length opener) (c # cs))) = Some (captured, rest)"
    and "opener \<noteq> []"
  shows "length rest < Suc (length cs)"
proof -
  have "length rest \<le> length (drop (length opener) (c # cs))"
    using assms(1) by (auto dest: splitAt_length splitAtInLine_length split: if_splits)
  moreover have "length (drop (length opener) (c # cs)) < Suc (length cs)"
    using assms(2) by (cases opener) auto
  ultimately show ?thesis by simp
qed

text \<open>
  \<^verbatim>\<open>s.replace(/OPENER(.*?)CLOSER/g, m => wrap(captured))\<close> for literal, non-empty
  delimiters; \<open>dotAll\<close> says whether the captured text may span lines. Where an opener
  has no closer the search moves on by one character.
\<close>

function replaceBetween ::
  "string \<Rightarrow> string \<Rightarrow> bool \<Rightarrow> (string \<Rightarrow> string) \<Rightarrow> string \<Rightarrow> string" where
  "replaceBetween opener closer dotAll wrap [] = []"
| "replaceBetween opener closer dotAll wrap (c # cs) =
     (if opener \<noteq> [] \<and> startsWith (c # cs) opener
      then (case (if dotAll then splitAt closer (drop (length opener) (c # cs))
                  else splitAtInLine closer (drop (length opener) (c # cs))) of
              Some (captured, rest) \<Rightarrow> wrap captured @ replaceBetween opener closer dotAll wrap rest
            | None \<Rightarrow> c # replaceBetween opener closer dotAll wrap cs)
      else c # replaceBetween opener closer dotAll wrap cs)"
  by pat_completeness auto
termination
proof (relation "measure (\<lambda>(opener, closer, dotAll, wrap, s). length s)")
  show "wf (measure (\<lambda>(opener, closer, dotAll, wrap, s). length (s :: string)))"
    by simp
next
  fix opener closer :: string and dotAll :: bool and wrap :: "string \<Rightarrow> string"
    and c :: char and cs :: string and x2 :: "string \<times> string" and captured rest :: string
  assume "opener \<noteq> [] \<and> startsWith (c # cs) opener"
    and "(if dotAll then splitAt closer (drop (length opener) (c # cs))
          else splitAtInLine closer (drop (length opener) (c # cs))) = Some x2"
    and "(captured, rest) = x2"
  then show "((opener, closer, dotAll, wrap, rest), (opener, closer, dotAll, wrap, c # cs))
               \<in> measure (\<lambda>(opener, closer, dotAll, wrap, s). length s)"
    using replaceBetween_shorter[of dotAll closer opener c cs captured rest] by simp
qed simp_all

declare replaceBetween.simps [simp del]

text \<open>\<^verbatim>\<open>s.replace(/MARKER(.*)/g, 'OPEN$1CLOSE')\<close> for a literal, non-empty marker: the
  greedy \<^verbatim>\<open>.*\<close> takes the rest of the line.\<close>

function replaceToLineEnd :: "string \<Rightarrow> string \<Rightarrow> string \<Rightarrow> string \<Rightarrow> string" where
  "replaceToLineEnd marker tagOpen tagClose [] = []"
| "replaceToLineEnd marker tagOpen tagClose (c # cs) =
     (if marker \<noteq> [] \<and> startsWith (c # cs) marker
      then tagOpen @
           takeWhile (\<lambda>x. \<not> isLineTerminator x) (drop (length marker) (c # cs)) @
           tagClose @
           replaceToLineEnd marker tagOpen tagClose
             (dropWhile (\<lambda>x. \<not> isLineTerminator x) (drop (length marker) (c # cs)))
      else c # replaceToLineEnd marker tagOpen tagClose cs)"
  by pat_completeness auto
termination
proof (relation "measure (\<lambda>(marker, tagOpen, tagClose, s). length s)", goal_cases)
  case 1
  show ?case by simp
next
  case (2 marker tagOpen tagClose c cs)
  have "length (dropWhile (\<lambda>x. \<not> isLineTerminator x) (drop (length marker) (c # cs)))
          \<le> length (drop (length marker) (c # cs))"
    by (rule length_dropWhile_le)
  moreover have "length (drop (length marker) (c # cs)) < length (c # cs)"
    using 2 by (cases marker) auto
  ultimately show ?case by simp
next
  case 3
  then show ?case by simp
qed

declare replaceToLineEnd.simps [simp del]

text \<open>\<^verbatim>\<open>s.replace(/^\* (.*)/gm, '<li>$1</li>')\<close>; \<open>bol\<close> says whether \<^verbatim>\<open>^\<close> matches
  at the current position (the start of the input, or just after a line terminator).\<close>

function listItemPass :: "bool \<Rightarrow> string \<Rightarrow> string" where
  "listItemPass bol [] = []"
| "listItemPass bol (c # cs) =
     (if bol \<and> startsWith (c # cs) ''* ''
      then ''<li>'' @ takeWhile (\<lambda>x. \<not> isLineTerminator x) (drop 2 (c # cs)) @ ''</li>'' @
           listItemPass False (dropWhile (\<lambda>x. \<not> isLineTerminator x) (drop 2 (c # cs)))
      else c # listItemPass (isLineTerminator c) cs)"
  by pat_completeness auto
termination
proof (relation "measure (\<lambda>(bol, s). length s)", goal_cases)
  case 1
  show ?case by simp
next
  case (2 bol c cs)
  have "length (dropWhile (\<lambda>x. \<not> isLineTerminator x) (drop 2 (c # cs)))
          \<le> length (drop 2 (c # cs))"
    by (rule length_dropWhile_le)
  then show ?case by simp
next
  case 3
  then show ?case by simp
qed

declare listItemPass.simps [simp del]

text \<open>\<^verbatim>\<open>s.replace(/PAT/g, 'REP')\<close> for a literal, non-empty pattern.\<close>

function replaceLiteral :: "string \<Rightarrow> string \<Rightarrow> string \<Rightarrow> string" where
  "replaceLiteral pat rep [] = []"
| "replaceLiteral pat rep (c # cs) =
     (if pat \<noteq> [] \<and> startsWith (c # cs) pat
      then rep @ replaceLiteral pat rep (drop (length pat) (c # cs))
      else c # replaceLiteral pat rep cs)"
  by pat_completeness auto
termination
proof (relation "measure (\<lambda>(pat, rep, s). length s)", goal_cases)
  case 1
  show ?case by simp
next
  case (2 pat rep c cs)
  then show ?case by (cases pat) auto
next
  case 3
  then show ?case by simp
qed

declare replaceLiteral.simps [simp del]

subsection \<open>Fenced code blocks\<close>

text \<open>The template literal the callback of \<^verbatim>\<open>/```([\s\S]*?)```/gs\<close> returns.\<close>

definition codeBlockOpen :: string where
  \<open>codeBlockOpen =
     ''\<newline>            <div style="background-color: #f8f9fa; border: 1px solid #e9ecef; border-radius: 0.25rem; padding: 1rem; overflow-x: auto; margin-top: 1rem; margin-bottom: 1rem;">\<newline>                <pre style="margin: 0; white-space: pre-wrap; word-wrap: break-word;"><code>''\<close>

definition codeBlockClose :: string where
  "codeBlockClose = ''</code></pre>\<newline>            </div>\<newline>        ''"

definition codeBlock :: "string \<Rightarrow> string" where
  "codeBlock cleanedCode = codeBlockOpen @ cleanedCode @ codeBlockClose"

definition fencedPass :: "string \<Rightarrow> string" where
  "fencedPass html = replaceBetween ''```'' ''```'' True (\<lambda>codeContent. codeBlock (trim codeContent)) html"

subsection \<open>Tables\<close>

text \<open>
  The table pass uses
  \<^verbatim>\<open>/(\|.*?\|[\r\n]+)([\s\S]*?)(?=\n[ \t]*[^|]|$)/g\<close>.
  Group 1 starts at a pipe and ends with the first later pipe of the same line that a
  line break follows, together with all the line breaks after it. \<open>headerEnd\<close> reads the
  text after the opening pipe and returns what stands before that closing pipe and what
  stands after it.
\<close>

fun headerEnd :: "string \<Rightarrow> (string \<times> string) option" where
  "headerEnd [] = None"
| "headerEnd (c # cs) =
     (if c = CHR ''|'' \<and> cs \<noteq> [] \<and> isLineTerminator (hd cs) then Some ([], cs)
      else if isLineTerminator c then None
      else map_option (\<lambda>(before, after). (c # before, after)) (headerEnd cs))"

text \<open>
  Group 2 is lazy and stops at the first position where the look-ahead holds: at a
  newline that is followed by a character other than the pipe (\<^verbatim>\<open>[ \t]*\<close> may match
  nothing and \<^verbatim>\<open>[^|]\<close> matches a blank), or at the end of the input.
\<close>

fun contentSplit :: "string \<Rightarrow> string \<times> string" where
  "contentSplit [] = ([], [])"
| "contentSplit (c # cs) =
     (if c = CHR 0x0A \<and> cs \<noteq> [] \<and> hd cs \<noteq> CHR ''|'' then ([], c # cs)
      else (case contentSplit cs of (contentBlock, rest) \<Rightarrow> (c # contentBlock, rest)))"

lemma headerEnd_length: "headerEnd s = Some (before, after) \<Longrightarrow> length after \<le> length s"
  by (induction s arbitrary: before) (auto split: if_splits)

lemma contentSplit_length: "contentSplit s = (contentBlock, rest) \<Longrightarrow> length rest \<le> length s"
  by (induction s arbitrary: contentBlock) (auto split: if_splits prod.splits)

lemma tablePass_shorter:
  assumes "headerEnd cs = Some (before, after)"
    and "contentSplit (dropWhile isLineTerminator after) = (contentBlock, rest)"
  shows "length rest < Suc (length cs)"
proof -
  have "length rest \<le> length (dropWhile isLineTerminator after)"
    using assms(2) by (rule contentSplit_length)
  moreover have "length (dropWhile isLineTerminator after) \<le> length after"
    by (rule length_dropWhile_le)
  moreover have "length after \<le> length cs"
    using assms(1) by (rule headerEnd_length)
  ultimately show ?thesis by simp
qed

function tablePass :: "string \<Rightarrow> jsError + string" where
  "tablePass [] = Inr []"
| "tablePass (c # cs) =
     (if c = CHR ''|''
      then (case headerEnd cs of
              Some (before, after) \<Rightarrow>
                (case contentSplit (dropWhile isLineTerminator after) of
                   (contentBlock, rest) \<Rightarrow>
                     (case renderTable
                             (CHR ''|'' # before @ CHR ''|'' # takeWhile isLineTerminator after)
                             contentBlock of
                        Inl e \<Rightarrow> Inl e
                      | Inr table \<Rightarrow>
                          (case tablePass rest of
                             Inl e \<Rightarrow> Inl e
                           | Inr others \<Rightarrow> Inr (table @ others))))
            | None \<Rightarrow>
                (case tablePass cs of Inl e \<Rightarrow> Inl e | Inr others \<Rightarrow> Inr (c # others)))
      else (case tablePass cs of Inl e \<Rightarrow> Inl e | Inr others \<Rightarrow> Inr (c # others)))"
  by pat_completeness auto
termination
proof (relation "measure length")
  show "wf (measure (length :: string \<Rightarrow> nat))"
    by simp
next
  fix c :: char and cs before after contentBlock rest :: string
    and x2 xy :: "string \<times> string" and table :: string
  assume "headerEnd cs = Some x2" and "(before, after) = x2"
    and "(contentBlock, rest) = contentSplit (dropWhile isLineTerminator after)"
  then show "(rest, c # cs) \<in> measure length"
    using tablePass_shorter[of cs before after contentBlock rest] by simp
qed simp_all

declare tablePass.simps [simp del]

subsection \<open>Headings, emphasis, rules, lists, line breaks\<close>

definition listPass :: "string \<Rightarrow> string" where
  "listPass html =
     (let html = listItemPass True html
      in if splitAt ''<li>'' html \<noteq> None
         then replaceLiteral ''</ul><ul>'' []
                (replaceBetween ''<li>'' ''</li>'' True
                   (\<lambda>item. ''<ul><li>'' @ item @ ''</li></ul>'') html)
         else html)"

definition inlinePasses :: "string \<Rightarrow> string" where
  "inlinePasses html =
     (let html = replaceToLineEnd ''## '' ''<h4>'' ''</h4>'' html;
          html = replaceToLineEnd ''# '' ''<h3>'' ''</h3>'' html;
          html = replaceBetween ''**'' ''**'' False (\<lambda>t. ''<strong>'' @ t @ ''</strong>'') html;
          html = replaceBetween ''*'' ''*'' False (\<lambda>t. ''<em>'' @ t @ ''</em>'') html;
          html = replaceLiteral ''---'' ''<hr>'' html;
          html = listPass html;
          html = replaceLiteral [CHR 0x0A, CHR 0x0A] ''<p></p>'' html;
          html = replaceLiteral [CHR 0x0A] ''<br>'' html
      in html)"

subsection \<open>The component\<close>

text \<open>
  The \<^verbatim>\<open>content\<close> property is any JavaScript value; the result is the string handed to
  \<^verbatim>\<open>dangerouslySetInnerHTML\<close> (empty when \<^verbatim>\<open>typeof content !== 'string'\<close>).
\<close>

datatype jsValue = JSString string | NotAString

definition MarkdownRenderer :: "jsValue \<Rightarrow> jsError + string" where
  "MarkdownRenderer content =
     (case content of
        NotAString \<Rightarrow> Inr []
      | JSString html \<Rightarrow>
          (case tablePass (fencedPass html) of
             Inl e \<Rightarrow> Inl e
           | Inr html' \<Rightarrow> Inr (inlinePasses html')))"

section \<open>The video link\<close>

text \<open>
  \<^verbatim>\<open>new URL(url)\<close> is the platform's parser, not code of this repository: it is a
  parameter \<open>URL\<close> of the model, \<open>None\<close> where the constructor throws. Of the parsed
  object the function reads \<^verbatim>\<open>hostname\<close>, \<^verbatim>\<open>pathname\<close> and \<^verbatim>\<open>searchParams\<close>
  (the query as a list of name and value pairs, in order).
\<close>

record urlObj =
  hostname :: string
  pathname :: string
  searchParams :: "(string \<times> string) list"

text \<open>\<^verbatim>\<open>s.includes(t)\<close>\<close>

definition includesStr :: "string \<Rightarrow> string \<Rightarrow> bool" where
  "includesStr s t \<longleftrightarrow> splitAt t s \<noteq> None"

definition fallbackUrl :: string where
  "fallbackUrl = ''https://www.youtube.com/embed/dQw4w9WgXcQ''"

definition getYouTubeEmbedUrl :: "(string \<Rightarrow> urlObj option) \<Rightarrow> string \<Rightarrow> string" where
  "getYouTubeEmbedUrl URL url =
     (case URL url of
        None \<Rightarrow> fallbackUrl
      | Some urlObj \<Rightarrow>
          (case (if includesStr (hostname urlObj) ''youtube.com''
                 then map_of (searchParams urlObj) ''v'' else None) of
             Some videoId \<Rightarrow> ''https://www.youtube.com/embed/'' @ videoId
           | None \<Rightarrow>
               if hostname urlObj = ''youtu.be''
               then ''https://www.youtube.com/embed/'' @ drop 1 (pathname urlObj)
               else fallbackUrl))"

section \<open>Notions used to state the properties\<close>

text \<open>The middle tokens of one row, and the rows for which the parser emits a record.\<close>

definition rawCellsOfRow :: "string \<Rightarrow> string list" where
  "rawCellsOfRow row = rawCellsOf (map trim (split CHR ''|'' row))"

definition isValidRow :: "string \<Rightarrow> bool" where
  "isValidRow row \<longleftrightarrow> isContentRow row \<and> length (rawCellsOfRow row) \<ge> 3"

definition validCells :: "string \<Rightarrow> string list list" where
  "validCells contentBlock = map rawCellsOfRow (filter isValidRow (contentRows contentBlock))"

text \<open>The key under which each record is filed in \<^verbatim>\<open>rowGroups\<close>.\<close>

definition keysOf :: "rowObject list \<Rightarrow> string list" where
  "keysOf rows = map (\<lambda>r. propertyKey (day r)) rows"

text \<open>
  The dictionary described from the finished table: a key has an entry when some record
  carries it; the entry counts every record with the key, wherever it stands, and points
  at the first of them.
\<close>

definition groupOf :: "rowObject list \<Rightarrow> string \<rightharpoonup> groupEntry" where
  "groupOf rows k =
     (if k \<in> set (keysOf rows)
      then Some \<lparr>count = count_list (keysOf rows) k,
                 firstRowIndex = length (takeWhile (\<lambda>x. x \<noteq> k) (keysOf rows))\<rparr>
      else None)"

text \<open>
  Carry-forward as the specification words it: a day that starts with \<^verbatim>\<open>Day\<close> becomes the
  current key, any other row inherits the most recent one.
\<close>

fun resolveKeys :: "string option \<Rightarrow> string list \<Rightarrow> string option list" where
  "resolveKeys cur [] = []"
| "resolveKeys cur (d # ds) =
     (if startsWith d ''Day'' then Some d # resolveKeys (Some d) ds
      else cur # resolveKeys cur ds)"

text \<open>The day token of a row: \<^verbatim>\<open>rawCells[0]\<close> after padding.\<close>

definition dayOfCells :: "string list \<Rightarrow> string" where
  "dayOfCells rawCells = cellAt (padCells rawCells) 0"

text \<open>
  The row the renderer emits for record \<open>i\<close>, described from the finished table alone:
  the leading cell stands on the first record that carries the key, and spans as many
  rows as there are records with that key.
\<close>

definition rowHtml :: "rowObject list \<Rightarrow> nat \<Rightarrow> string" where
  "rowHtml rows i =
     (let keys = keysOf rows; k = keys ! i
      in ''<tr>'' @
         (if i = length (takeWhile (\<lambda>x. x \<noteq> k) keys)
          then dayCell (count_list keys k) (day (rows ! i)) else []) @
         concat (map td (subjectCells (rows ! i))) @
         ''</tr>'')"

text \<open>The current day after a row with the tokens \<open>rawCells\<close>.\<close>

definition nextDay :: "string option \<Rightarrow> string list \<Rightarrow> string option" where
  "nextDay cur rawCells =
     (if startsWith (dayOfCells rawCells) ''Day'' then Some (dayOfCells rawCells) else cur)"

text \<open>The invariant of the loop: the dictionary is the one described from the table.\<close>

definition groupsConsistent :: "parseState \<Rightarrow> bool" where
  "groupsConsistent st \<longleftrightarrow> rowGroups st = groupOf (tableData st)"

section \<open>The parser as a fold over the valid rows\<close>

lemma parseRow_valid:
  "parseRow st row = (if isValidRow row then addRow st (rawCellsOfRow row) else st)"
  by (simp add: parseRow_def isValidRow_def rawCellsOfRow_def Let_def)

lemma foldl_parseRow:
  "foldl parseRow st rows = foldl addRow st (map rawCellsOfRow (filter isValidRow rows))"
  by (induction rows arbitrary: st) (simp_all add: parseRow_valid)

lemma parseContent_fold: "parseContent c = foldl addRow initialState (validCells c)"
  by (simp add: parseContent_def validCells_def foldl_parseRow)

lemma shiftCorrect_day: "fst (shiftCorrect cs) = cellAt cs 0"
  by (simp add: shiftCorrect_def Let_def)

lemma addRow_currentDay: "currentDay (addRow st raw) = nextDay (currentDay st) raw"
  using shiftCorrect_day[of "padCells raw"]
  by (auto simp: addRow_def nextDay_def dayOfCells_def Let_def split: prod.splits)

lemma addRow_tableData:
  "tableData (addRow st raw) = tableData st @
     [\<lparr>day = nextDay (currentDay st) raw,
       subjectCells = (case shiftCorrect (padCells raw) of (d, s, c, t) \<Rightarrow> [s, c, t])\<rparr>]"
  using shiftCorrect_day[of "padCells raw"]
  by (auto simp: addRow_def nextDay_def dayOfCells_def Let_def split: prod.splits)

lemma addRow_rowGroups:
  "rowGroups (addRow st raw) =
     (let key = propertyKey (nextDay (currentDay st) raw) in
      case rowGroups st key of
        Some g \<Rightarrow> (rowGroups st)(key \<mapsto> g\<lparr>count := count g + 1\<rparr>)
      | None \<Rightarrow> (rowGroups st)(key \<mapsto> \<lparr>count = 1, firstRowIndex = length (tableData st)\<rparr>))"
  using shiftCorrect_day[of "padCells raw"]
  by (auto simp: addRow_def nextDay_def dayOfCells_def Let_def split: prod.splits option.splits)

lemma length_tableData_foldl:
  "length (tableData (foldl addRow st rs)) = length (tableData st) + length rs"
  by (induction rs arbitrary: st) (simp_all add: addRow_tableData)

lemma length_tableData: "length (tableData (parseContent c)) = length (validCells c)"
  by (simp add: parseContent_fold length_tableData_foldl initialState_def)

lemma days_foldl:
  "map day (tableData (foldl addRow st rs)) =
     map day (tableData st) @ resolveKeys (currentDay st) (map dayOfCells rs)"
  by (induction rs arbitrary: st) (simp_all add: addRow_tableData addRow_currentDay nextDay_def)

lemma days_parseContent:
  "map day (tableData (parseContent c)) = resolveKeys None (map dayOfCells (validCells c))"
  by (simp add: parseContent_fold days_foldl initialState_def)

section \<open>The dictionary is determined by the table\<close>

lemma takeWhile_neq_absent:
  "k \<notin> set xs \<Longrightarrow>
     takeWhile (\<lambda>x. x \<noteq> k) (xs @ ys) = xs @ takeWhile (\<lambda>x. x \<noteq> k) ys"
  by (induction xs) auto

lemma takeWhile_neq_present:
  "k \<in> set xs \<Longrightarrow> takeWhile (\<lambda>x. x \<noteq> k) (xs @ ys) = takeWhile (\<lambda>x. x \<noteq> k) xs"
  by (induction xs) auto

lemma groupOf_snoc:
  "groupOf (rows @ [r]) =
     (let key = propertyKey (day r) in
      case groupOf rows key of
        Some g \<Rightarrow> (groupOf rows)(key \<mapsto> g\<lparr>count := count g + 1\<rparr>)
      | None \<Rightarrow> (groupOf rows)(key \<mapsto> \<lparr>count = 1, firstRowIndex = length rows\<rparr>))"
proof (rule ext)
  fix k
  show "groupOf (rows @ [r]) k =
     (let key = propertyKey (day r) in
      case groupOf rows key of
        Some g \<Rightarrow> (groupOf rows)(key \<mapsto> g\<lparr>count := count g + 1\<rparr>)
      | None \<Rightarrow> (groupOf rows)(key \<mapsto> \<lparr>count = 1, firstRowIndex = length rows\<rparr>)) k"
    by (auto simp: groupOf_def keysOf_def Let_def takeWhile_neq_absent takeWhile_neq_present
          split: option.splits)
qed

lemma groupsConsistent_initial: "groupsConsistent initialState"
  by (auto simp: groupsConsistent_def initialState_def groupOf_def keysOf_def)

lemma groupsConsistent_addRow: "groupsConsistent st \<Longrightarrow> groupsConsistent (addRow st raw)"
  by (simp add: groupsConsistent_def addRow_rowGroups addRow_tableData groupOf_snoc Let_def
        cong: option.case_cong)

lemma groupsConsistent_foldl: "groupsConsistent st \<Longrightarrow> groupsConsistent (foldl addRow st rs)"
  by (induction rs arbitrary: st) (simp_all add: groupsConsistent_addRow)

lemma rowGroups_parseContent: "rowGroups (parseContent c) = groupOf (tableData (parseContent c))"
  using groupsConsistent_foldl[OF groupsConsistent_initial]
  by (simp add: parseContent_fold groupsConsistent_def)

section \<open>The rendering loop never throws\<close>

lemma renderRows_concat:
  "(\<And>j. j < length rows \<Longrightarrow> renderRow groups (i + j) (rows ! j) = Inr (f (i + j))) \<Longrightarrow>
   renderRows groups i rows = Inr (concat (map f [i..<i + length rows]))"
proof (induction rows arbitrary: i)
  case Nil
  then show ?case by simp
next
  case (Cons r rows)
  have h: "renderRow groups i r = Inr (f i)"
    using Cons.prems[of 0] by simp
  have t: "renderRows groups (Suc i) rows = Inr (concat (map f [Suc i..<Suc i + length rows]))"
    using Cons.prems[of "Suc j" for j] by (intro Cons.IH) simp
  have e: "[i..<i + length (r # rows)] = i # [Suc i..<Suc i + length rows]"
    by (simp add: upt_conv_Cons del: upt_Suc)
  show ?case
    by (simp only: e renderRows.simps h t sum.case concat.simps list.map)
qed

lemma renderRow_groupOf:
  "i < length rows \<Longrightarrow> renderRow (groupOf rows) i (rows ! i) = Inr (rowHtml rows i)"
  by (simp add: renderRow_def groupOf_def rowHtml_def keysOf_def Let_def)

lemma renderTimetable_rows:
  "renderTimetable headers c =
     Inr (tableOpen headers @
          concat (map (rowHtml (tableData (parseContent c)))
                      [0..<length (tableData (parseContent c))]) @
          tableClose)"
  using renderRows_concat[of "tableData (parseContent c)" "groupOf (tableData (parseContent c))" 0
          "rowHtml (tableData (parseContent c))"]
  by (simp add: renderTimetable_def rowGroups_parseContent renderRow_groupOf Let_def)

text \<open>Hence no pass of the component throws.\<close>

lemma renderTable_total: "\<exists>html. renderTable headerLine contentBlock = Inr html"
  by (simp add: renderTable_def renderTimetable_rows Let_def)

lemma tablePass_total: "\<exists>html. tablePass s = Inr html"
proof (induction s rule: tablePass.induct)
  case 1
  show ?case by (simp add: tablePass.simps)
next
  case (2 c cs)
  show ?case
  proof (cases "c = CHR ''|''")
    case False
    with 2 show ?thesis by (auto simp: tablePass.simps)
  next
    case True
    show ?thesis
    proof (cases "headerEnd cs")
      case None
      with True 2 show ?thesis by (auto simp: tablePass.simps)
    next
      case (Some ba)
      obtain before after where ba: "ba = (before, after)" by (cases ba)
      obtain contentBlock rest where
        cr: "contentSplit (dropWhile isLineTerminator after) = (contentBlock, rest)"
        by (cases "contentSplit (dropWhile isLineTerminator after)")
      obtain table where
        t: "renderTable (CHR ''|'' # before @ CHR ''|'' # takeWhile isLineTerminator after)
              contentBlock = Inr table"
        using renderTable_total by blast
      have "\<exists>html. tablePass rest = Inr html"
        using "2.IH"(2)[OF True Some ba[symmetric] cr[symmetric] t] .
      then show ?thesis
        using True Some ba cr t by (auto simp: tablePass.simps)
    qed
  qed
qed

lemma MarkdownRenderer_total: "\<exists>html. MarkdownRenderer content = Inr html"
proof (cases content)
  case (JSString html)
  obtain html' where "tablePass (fencedPass html) = Inr html'"
    using tablePass_total by blast
  with JSString show ?thesis by (simp add: MarkdownRenderer_def)
next
  case NotAString
  then show ?thesis by (simp add: MarkdownRenderer_def)
qed

section \<open>Character classes\<close>

lemma char_eq_code: "c = d \<longleftrightarrow> (of_char c :: nat) = of_char d"
  by simp

lemma digit_codes:
  "(48 \<le> (of_char c :: nat) \<and> (of_char c :: nat) \<le> 57) \<longleftrightarrow> c \<in> set ''0123456789''"
proof -
  have "c \<in> set ''0123456789'' \<longleftrightarrow> (of_char c :: nat) \<in> {48, 49, 50, 51, 52, 53, 54, 55, 56, 57}"
    by (simp add: char_eq_code[of c])
  also have "\<dots> \<longleftrightarrow> (48 \<le> (of_char c :: nat) \<and> (of_char c :: nat) \<le> 57)"
    by (simp only: insert_iff empty_iff) arith
  finally show ?thesis by simp
qed

lemma isDigitOrDot_iff: "isDigitOrDot c \<longleftrightarrow> c \<in> set ''0123456789.''"
  using digit_codes[of c] by (auto simp: isDigitOrDot_def)

lemma digitsAndDots_iff: "list_all isDigitOrDot s \<longleftrightarrow> set s \<subseteq> set ''0123456789.''"
  unfolding list_all_iff isDigitOrDot_iff by blast

lemma toLowerChar_code:
  "(of_char (toLowerChar c) :: nat) =
     (if (65 \<le> (of_char c :: nat) \<and> (of_char c :: nat) \<le> 90) \<or>
         (192 \<le> (of_char c :: nat) \<and> (of_char c :: nat) \<le> 222 \<and> (of_char c :: nat) \<noteq> 215)
      then of_char c + 32 else of_char c)"
  by (auto simp: toLowerChar_def Let_def)

lemma toLowerChar_d: "toLowerChar c = CHR ''d'' \<longleftrightarrow> c = CHR ''d'' \<or> c = CHR ''D''"
  unfolding char_eq_code[of "toLowerChar c"] char_eq_code[of c] toLowerChar_code by auto

lemma toLowerChar_a: "toLowerChar c = CHR ''a'' \<longleftrightarrow> c = CHR ''a'' \<or> c = CHR ''A''"
  unfolding char_eq_code[of "toLowerChar c"] char_eq_code[of c] toLowerChar_code by auto

lemma toLowerChar_y: "toLowerChar c = CHR ''y'' \<longleftrightarrow> c = CHR ''y'' \<or> c = CHR ''Y''"
  unfolding char_eq_code[of "toLowerChar c"] char_eq_code[of c] toLowerChar_code by auto

lemma toLowerCase_day:
  "toLowerCase h = ''day'' \<longleftrightarrow>
     h \<in> {''day'', ''daY'', ''dAy'', ''dAY'', ''Day'', ''DaY'', ''DAy'', ''DAY''}"
proof -
  have "toLowerCase h = ''day'' \<longleftrightarrow>
          (\<exists>a b c. h = [a, b, c] \<and> toLowerChar a = CHR ''d'' \<and> toLowerChar b = CHR ''a'' \<and>
             toLowerChar c = CHR ''y'')"
    by (auto simp: toLowerCase_def map_eq_Cons_conv)
  also have "\<dots> \<longleftrightarrow> h \<in> {''day'', ''daY'', ''dAy'', ''dAY'', ''Day'', ''DaY'', ''DAy'', ''DAY''}"
    unfolding toLowerChar_d toLowerChar_a toLowerChar_y by auto
  finally show ?thesis .
qed

section \<open>Classification of a table\<close>

text \<open>
  Claim C5. A detected table is rendered in the row-spanning (timetable) mode exactly when
  its filtered header list has at least four entries and the first entry is the word
  \<^verbatim>\<open>day\<close> in any mix of upper and lower case; every other table is rendered by the
  simple renderer.
\<close>

theorem timetable_classification:
  "renderTable headerLine contentBlock =
     (if 4 \<le> length (headersOf headerLine) \<and>
         headersOf headerLine ! 0 \<in>
           {''day'', ''daY'', ''dAy'', ''dAY'', ''Day'', ''DaY'', ''DAy'', ''DAY''}
      then renderTimetable (headersOf headerLine) contentBlock
      else Inr (renderSimple (headersOf headerLine) contentBlock))"
  by (simp add: renderTable_def isTimetable_def toLowerCase_day Let_def del: insert_iff)

section \<open>Groups of the timetable\<close>

text \<open>
  Claim C1 on a timetable whose rows name \<^verbatim>\<open>Day 1\<close>, \<^verbatim>\<open>Day 2\<close> and \<^verbatim>\<open>Day 1\<close> again.
  The dictionary \<^verbatim>\<open>rowGroups\<close> is keyed by the day alone, so the second \<^verbatim>\<open>Day 1\<close> row is
  counted into the entry of the first: the first row carries a leading cell with
  \<^verbatim>\<open>rowspan="2"\<close>, which spans the \<^verbatim>\<open>Day 2\<close> row below it, and the third row is emitted
  with no leading cell at all.
\<close>

theorem recurring_day_breaks_rowspan:
  \<open>renderTable ''| Day | Subject | Chapters | Time |\<newline>''
     ''| Day 1 | a | b | c |\<newline>| Day 2 | d | e | f |\<newline>| Day 1 | g | h | i |'' =
     Inr ''<table class="table table-bordered table-striped mt-3"><thead><tr><th style="text-align: left; font-weight: bold; background-color: #f2f2f2;">Day</th><th style="text-align: left; font-weight: bold; background-color: #f2f2f2;">Subject</th><th style="text-align: left; font-weight: bold; background-color: #f2f2f2;">Chapters</th><th style="text-align: left; font-weight: bold; background-color: #f2f2f2;">Time</th></tr></thead><tbody><tr><td rowspan="2" style="text-align: left; font-weight: bold; background-color: #e9e9e9;">Day 1</td><td style="text-align: left;">a</td><td style="text-align: left;">b</td><td style="text-align: left;">c</td></tr><tr><td rowspan="1" style="text-align: left; font-weight: bold; background-color: #e9e9e9;">Day 2</td><td style="text-align: left;">d</td><td style="text-align: left;">e</td><td style="text-align: left;">f</td></tr><tr><td style="text-align: left;">g</td><td style="text-align: left;">h</td><td style="text-align: left;">i</td></tr></tbody></table>''\<close>
  by code_simp

section \<open>Shift correction\<close>

lemma padCells_nth:
  "3 \<le> length rawCells \<Longrightarrow> i < 3 \<Longrightarrow> cellAt (padCells rawCells) i = rawCells ! i"
  by (auto simp: cellAt_def padCells_def nth_append)

lemma padCells_3: "3 \<le> length rawCells \<Longrightarrow> cellAt (padCells rawCells) 3 = cellAt rawCells 3"
  by (auto simp: cellAt_def padCells_def nth_append)

text \<open>
  The guard of the correction on the tokens of a row: it asks that the day does not start
  with \<^verbatim>\<open>Day\<close>, not that the day is blank.
\<close>

lemma shiftCorrect_guard:
  assumes "3 \<le> length rawCells"
  shows "shiftCorrect (padCells rawCells) =
           (if \<not> startsWith (rawCells ! 0) ''Day'' \<and> set (rawCells ! 1) \<subseteq> set ''0123456789.'' \<and>
               rawCells ! 2 \<noteq> [] \<and> cellAt rawCells 3 = []
            then (rawCells ! 0, [], rawCells ! 1, rawCells ! 2)
            else (rawCells ! 0, rawCells ! 1, rawCells ! 2, cellAt rawCells 3)) \<and>
         subjectCells (last (tableData (addRow st rawCells))) =
           (if \<not> startsWith (rawCells ! 0) ''Day'' \<and> set (rawCells ! 1) \<subseteq> set ''0123456789.'' \<and>
               rawCells ! 2 \<noteq> [] \<and> cellAt rawCells 3 = []
            then [[], rawCells ! 1, rawCells ! 2]
            else [rawCells ! 1, rawCells ! 2, cellAt rawCells 3])"
  using assms
  by (simp add: addRow_tableData shiftCorrect_def shiftCondition_def Let_def padCells_nth
        padCells_3 digitsAndDots_iff del: set_simps)

text \<open>
  Claim C3 on the row \<^verbatim>\<open>| Mon | 3 | Chapter 1-3 |\<close>, whose day is not blank: the row is
  shifted all the same and is emitted with the cells \<open>("", "3", "Chapter 1-3")\<close>, where
  the positions of the source row are \<open>("3", "Chapter 1-3", "")\<close>.
\<close>

theorem nonblank_day_is_shifted:
  \<open>renderTable ''| Day | Subject | Chapters | Time |\<newline>''
     ''| Day 1 | Math | 1-2 | 9am |\<newline>| Mon | 3 | Chapter 1-3 |'' =
     Inr ''<table class="table table-bordered table-striped mt-3"><thead><tr><th style="text-align: left; font-weight: bold; background-color: #f2f2f2;">Day</th><th style="text-align: left; font-weight: bold; background-color: #f2f2f2;">Subject</th><th style="text-align: left; font-weight: bold; background-color: #f2f2f2;">Chapters</th><th style="text-align: left; font-weight: bold; background-color: #f2f2f2;">Time</th></tr></thead><tbody><tr><td rowspan="2" style="text-align: left; font-weight: bold; background-color: #e9e9e9;">Day 1</td><td style="text-align: left;">Math</td><td style="text-align: left;">1-2</td><td style="text-align: left;">9am</td></tr><tr><td style="text-align: left;"></td><td style="text-align: left;">3</td><td style="text-align: left;">Chapter 1-3</td></tr></tbody></table>''\<close>
  by code_simp

section \<open>Rows before the first day\<close>

lemma resolveKeys_from_Some: "None \<notin> set (resolveKeys (Some d) ds)"
  by (induction ds arbitrary: d) auto

lemma resolveKeys_Day:
  "x \<in> set (resolveKeys cur ds) \<Longrightarrow> x = cur \<or> (\<exists>d. x = Some d \<and> startsWith d ''Day'')"
  by (induction ds arbitrary: cur) (auto split: if_splits)

lemma resolveKeys_leading:
  "resolveKeys cur ds =
     replicate (length (takeWhile (\<lambda>d. \<not> startsWith d ''Day'') ds)) cur @
     resolveKeys cur (dropWhile (\<lambda>d. \<not> startsWith d ''Day'') ds)"
  by (induction ds) auto

lemma resolveKeys_after_leading:
  assumes "x \<in> set (resolveKeys None (dropWhile (\<lambda>d. \<not> startsWith d ''Day'') ds))"
  shows "\<exists>d. x = Some d \<and> startsWith d ''Day''"
proof (cases "dropWhile (\<lambda>d. \<not> startsWith d ''Day'') ds")
  case Nil
  with assms show ?thesis by simp
next
  case (Cons d rest)
  then have d: "startsWith d ''Day''"
    using hd_dropWhile[of "\<lambda>d. \<not> startsWith d ''Day''" ds] by auto
  with assms Cons have "x = Some d \<or> x \<in> set (resolveKeys (Some d) rest)" by simp
  then show ?thesis
    using d resolveKeys_Day[of x "Some d" rest] by auto
qed

lemma count_list_replicate_same: "count_list (replicate n x) x = n"
  by (induction n) simp_all

lemma key_of_Day: "startsWith d ''Day'' \<Longrightarrow> d \<noteq> ''null''"
  by auto

lemma keys_split:
  fixes c :: string
  defines "ds \<equiv> map dayOfCells (validCells c)"
  defines "n \<equiv> length (takeWhile (\<lambda>d. \<not> startsWith d ''Day'') ds)"
  shows "\<exists>later. map day (tableData (parseContent c)) = replicate n None @ later \<and> None \<notin> set later \<and>
            keysOf (tableData (parseContent c)) = replicate n ''null'' @ map propertyKey later \<and>
            ''null'' \<notin> set (map propertyKey later)"
proof -
  define later where "later = resolveKeys None (dropWhile (\<lambda>d. \<not> startsWith d ''Day'') ds)"
  have 1: "map day (tableData (parseContent c)) = replicate n None @ later"
    unfolding days_parseContent later_def n_def ds_def by (rule resolveKeys_leading)
  have 2: "\<exists>d. x = Some d \<and> startsWith d ''Day''" if "x \<in> set later" for x
    using that unfolding later_def by (rule resolveKeys_after_leading)
  have 3: "None \<notin> set later" using 2 by auto
  have "keysOf (tableData (parseContent c)) = map propertyKey (map day (tableData (parseContent c)))"
    by (simp add: keysOf_def comp_def)
  then have 4: "keysOf (tableData (parseContent c)) = replicate n ''null'' @ map propertyKey later"
    unfolding 1 by (simp add: propertyKey_def)
  have 5: "''null'' \<notin> set (map propertyKey later)"
  proof
    assume "''null'' \<in> set (map propertyKey later)"
    then obtain x where "x \<in> set later" "propertyKey x = ''null''" by auto
    with 2 obtain d where "x = Some d" "startsWith d ''Day''" by blast
    with \<open>propertyKey x = ''null''\<close> show False by (auto simp: propertyKey_def)
  qed
  show ?thesis using 1 3 4 5 by blast
qed

text \<open>
  For the rows that the row test accepts: when the first of them has a day that does not
  start with \<^verbatim>\<open>Day\<close>, it and the accepted rows after it up to the first that names a
  day (\<open>n\<close> rows in all) form the one group filed under the key \<^verbatim>\<open>"null"\<close>.
\<close>

lemma null_group_of_accepted_rows:
  assumes "validCells c = r # rs" and "\<not> startsWith (dayOfCells r) ''Day''"
  defines "n \<equiv> length (takeWhile (\<lambda>x. \<not> startsWith (dayOfCells x) ''Day'') (r # rs))"
  defines "rows \<equiv> tableData (parseContent c)"
  shows "length rows = Suc (length rs) \<and> 0 < n \<and> n \<le> length rows \<and>
         rowGroups (parseContent c) ''null'' = Some \<lparr>count = n, firstRowIndex = 0\<rparr> \<and>
         (\<forall>i<n. day (rows ! i) = None) \<and>
         (\<forall>i. n \<le> i \<and> i < length rows \<longrightarrow> day (rows ! i) \<noteq> None) \<and>
         renderRow (rowGroups (parseContent c)) 0 (rows ! 0) =
           Inr (''<tr>'' @ dayCellOpen n @ ''null'' @ ''</td>'' @
                concat (map td (subjectCells (rows ! 0))) @ ''</tr>'') \<and>
         (\<forall>i. 0 < i \<and> i < n \<longrightarrow>
            renderRow (rowGroups (parseContent c)) i (rows ! i) =
              Inr (''<tr>'' @ concat (map td (subjectCells (rows ! i))) @ ''</tr>''))"
proof -
  have n_eq: "n = length (takeWhile (\<lambda>d. \<not> startsWith d ''Day'') (map dayOfCells (validCells c)))"
    unfolding n_def assms(1) by (simp add: takeWhile_map comp_def)
  obtain later where
    days: "map day rows = replicate n None @ later" and
    later: "None \<notin> set later" and
    keys: "keysOf rows = replicate n ''null'' @ map propertyKey later" and
    nokey: "''null'' \<notin> set (map propertyKey later)"
    using keys_split[of c] unfolding n_eq rows_def by blast
  have npos: "0 < n" using assms(2) unfolding n_def by simp
  have len: "length rows = n + length later"
    using arg_cong[OF days, of length] by simp
  have dayi: "day (rows ! i) = (replicate n None @ later) ! i" if "i < length rows" for i
    using nth_map[OF that, of day] unfolding days by simp
  have d1: "\<forall>i<n. day (rows ! i) = None"
    using dayi len by (simp add: nth_append)
  have d2: "\<forall>i. n \<le> i \<and> i < length rows \<longrightarrow> day (rows ! i) \<noteq> None"
  proof (intro allI impI)
    fix i assume i: "n \<le> i \<and> i < length rows"
    then have "day (rows ! i) = later ! (i - n)" using dayi by (simp add: nth_append)
    moreover have "i - n < length later" using i len by arith
    then have "later ! (i - n) \<in> set later" by (rule nth_mem)
    ultimately show "day (rows ! i) \<noteq> None" using later by metis
  qed
  have cnt: "count_list (keysOf rows) ''null'' = n"
    using nokey unfolding keys by (simp add: count_list_0_iff count_list_replicate_same)
  have fst: "takeWhile (\<lambda>x. x \<noteq> ''null'') (keysOf rows) = []"
    using npos unfolding keys by (cases n) simp_all
  have mem: "''null'' \<in> set (keysOf rows)"
    using npos unfolding keys by simp
  have g: "rowGroups (parseContent c) = groupOf rows"
    unfolding rows_def by (rule rowGroups_parseContent)
  have g0: "groupOf rows ''null'' = Some \<lparr>count = n, firstRowIndex = 0\<rparr>"
    by (simp add: groupOf_def mem cnt fst)
  have r0: "renderRow (groupOf rows) 0 (rows ! 0) =
           Inr (''<tr>'' @ dayCellOpen n @ ''null'' @ ''</td>'' @
                concat (map td (subjectCells (rows ! 0))) @ ''</tr>'')"
    using d1 npos by (simp add: renderRow_def g0 propertyKey_def dayCell_def)
  have ri: "\<forall>i. 0 < i \<and> i < n \<longrightarrow>
            renderRow (groupOf rows) i (rows ! i) =
              Inr (''<tr>'' @ concat (map td (subjectCells (rows ! i))) @ ''</tr>'')"
    using d1 by (simp add: renderRow_def g0 propertyKey_def)
  have total: "length rows = Suc (length rs)"
    unfolding rows_def length_tableData assms(1) by simp
  have bound: "n \<le> length rows"
    using len by simp
  show ?thesis unfolding g using total npos bound g0 d1 d2 r0 ri by blast
qed

text \<open>
  Claim C10 on a timetable that starts with two rows without a day, the first of them
  \<^verbatim>\<open>|  | 3 | Chapter 1-3 |  |\<close>: the separator test takes that row for a separator,
  so it is not emitted, and the \<^verbatim>\<open>null\<close> cell has \<^verbatim>\<open>rowspan="1"\<close> although the leading
  run has two rows. Where the test accepts both leading rows, they are emitted under one
  \<^verbatim>\<open>null\<close> cell with \<^verbatim>\<open>rowspan="2"\<close>.
\<close>

theorem leading_row_is_lost:
  \<open>renderTable ''| Day | Subject | Chapters | Time |\<newline>''
     ''|  | 3 | Chapter 1-3 |  |\<newline>|  | Math | 1-2 | 9am |\<newline>| Day 1 | Art | 4 | 10am |'' =
     Inr ''<table class="table table-bordered table-striped mt-3"><thead><tr><th style="text-align: left; font-weight: bold; background-color: #f2f2f2;">Day</th><th style="text-align: left; font-weight: bold; background-color: #f2f2f2;">Subject</th><th style="text-align: left; font-weight: bold; background-color: #f2f2f2;">Chapters</th><th style="text-align: left; font-weight: bold; background-color: #f2f2f2;">Time</th></tr></thead><tbody><tr><td rowspan="1" style="text-align: left; font-weight: bold; background-color: #e9e9e9;">null</td><td style="text-align: left;">Math</td><td style="text-align: left;">1-2</td><td style="text-align: left;">9am</td></tr><tr><td rowspan="1" style="text-align: left; font-weight: bold; background-color: #e9e9e9;">Day 1</td><td style="text-align: left;">Art</td><td style="text-align: left;">4</td><td style="text-align: left;">10am</td></tr></tbody></table>'' \<and>
   renderTable ''| Day | Subject | Chapters | Time |\<newline>''
     ''|  | Math | 1-2 | 9am |\<newline>|  | Art | 4 | 10am |\<newline>| Day 1 | Music | 5 | 11am |'' =
     Inr ''<table class="table table-bordered table-striped mt-3"><thead><tr><th style="text-align: left; font-weight: bold; background-color: #f2f2f2;">Day</th><th style="text-align: left; font-weight: bold; background-color: #f2f2f2;">Subject</th><th style="text-align: left; font-weight: bold; background-color: #f2f2f2;">Chapters</th><th style="text-align: left; font-weight: bold; background-color: #f2f2f2;">Time</th></tr></thead><tbody><tr><td rowspan="2" style="text-align: left; font-weight: bold; background-color: #e9e9e9;">null</td><td style="text-align: left;">Math</td><td style="text-align: left;">1-2</td><td style="text-align: left;">9am</td></tr><tr><td style="text-align: left;">Art</td><td style="text-align: left;">4</td><td style="text-align: left;">10am</td></tr><tr><td rowspan="1" style="text-align: left; font-weight: bold; background-color: #e9e9e9;">Day 1</td><td style="text-align: left;">Music</td><td style="text-align: left;">5</td><td style="text-align: left;">11am</td></tr></tbody></table>''\<close>
  by code_simp

section \<open>Carry-forward of the day\<close>

text \<open>
  Claim C4 on two timetables. The rows \<open>("Day 1", "Math", "1-2", "9am")\<close> and
  \<open>("", "Science", "3", "10am")\<close> render as one group: the \<^verbatim>\<open>Day 1\<close> cell is emitted
  once, on the first row, with \<^verbatim>\<open>rowspan="2"\<close>. After the row
  \<^verbatim>\<open>| Day 1 | 1 | Math | 9am |\<close>, however, the row \<^verbatim>\<open>|  | 2 | Science | 10am |\<close> does not
  inherit the key: the separator test takes it for a separator, it is not emitted, and
  the \<^verbatim>\<open>Day 1\<close> cell has \<^verbatim>\<open>rowspan="1"\<close>.
\<close>

theorem numeric_row_does_not_inherit:
  \<open>renderTable ''| Day | Subject | Chapters | Time |\<newline>''
     ''| Day 1 | Math | 1-2 | 9am |\<newline>|  | Science | 3 | 10am |'' =
     Inr ''<table class="table table-bordered table-striped mt-3"><thead><tr><th style="text-align: left; font-weight: bold; background-color: #f2f2f2;">Day</th><th style="text-align: left; font-weight: bold; background-color: #f2f2f2;">Subject</th><th style="text-align: left; font-weight: bold; background-color: #f2f2f2;">Chapters</th><th style="text-align: left; font-weight: bold; background-color: #f2f2f2;">Time</th></tr></thead><tbody><tr><td rowspan="2" style="text-align: left; font-weight: bold; background-color: #e9e9e9;">Day 1</td><td style="text-align: left;">Math</td><td style="text-align: left;">1-2</td><td style="text-align: left;">9am</td></tr><tr><td style="text-align: left;">Science</td><td style="text-align: left;">3</td><td style="text-align: left;">10am</td></tr></tbody></table>'' \<and>
   renderTable ''| Day | Subject | Chapters | Time |\<newline>''
     ''| Day 1 | 1 | Math | 9am |\<newline>|  | 2 | Science | 10am |'' =
     Inr ''<table class="table table-bordered table-striped mt-3"><thead><tr><th style="text-align: left; font-weight: bold; background-color: #f2f2f2;">Day</th><th style="text-align: left; font-weight: bold; background-color: #f2f2f2;">Subject</th><th style="text-align: left; font-weight: bold; background-color: #f2f2f2;">Chapters</th><th style="text-align: left; font-weight: bold; background-color: #f2f2f2;">Time</th></tr></thead><tbody><tr><td rowspan="1" style="text-align: left; font-weight: bold; background-color: #e9e9e9;">Day 1</td><td style="text-align: left;">1</td><td style="text-align: left;">Math</td><td style="text-align: left;">9am</td></tr></tbody></table>''\<close>
  by code_simp

section \<open>Shape of the simple table\<close>

text \<open>
  Claim C7 on a simple table with three header labels and the two data rows
  \<^verbatim>\<open>| x |  | y |\<close> and \<^verbatim>\<open>| 1 | 2 | 3 |\<close>: the body has one row of two cells. The empty
  interior token of the first row is dropped with the outer ones, and the second row is
  taken for a separator and not emitted.
\<close>

theorem simple_row_loses_cells:
  \<open>renderTable ''| A | B | C |\<newline>''
     ''| x |  | y |\<newline>| 1 | 2 | 3 |'' =
     Inr ''<table class="table table-bordered table-striped mt-3"><thead><tr><th style="text-align: left; font-weight: bold; background-color: #f2f2f2;">A</th><th style="text-align: left; font-weight: bold; background-color: #f2f2f2;">B</th><th style="text-align: left; font-weight: bold; background-color: #f2f2f2;">C</th></tr></thead><tbody><tr><td style="text-align: left;">x</td><td style="text-align: left;">y</td></tr></tbody></table>''\<close>
  by code_simp

section \<open>Rows the separator test drops\<close>

text \<open>
  Claim C8 on the row \<^verbatim>\<open>|  | 3 | Chapter 1-3 |  |\<close>: it starts with a pipe, has four
  tokens between the outer pipes and is no line of dashes and colons, yet the separator
  test matches it (its first two cells hold only characters of U+0020 .. U+003A), no
  record is emitted for it and the timetable is rendered without a body row.
\<close>

theorem numeric_row_is_dropped:
  "rawCellsOfRow ''|  | 3 | Chapter 1-3 |  |'' = ['''', ''3'', ''Chapter 1-3'', ''''] \<and>
   startsWith (trim ''|  | 3 | Chapter 1-3 |  |'') ''|'' \<and>
   \<not> set ''|  | 3 | Chapter 1-3 |  |'' \<subseteq> set ''-:| '' \<and>
   matchesSeparator (trim ''|  | 3 | Chapter 1-3 |  |'') \<and>
   tableData (parseContent ''|  | 3 | Chapter 1-3 |  |'') = [] \<and>
   renderTable ''| Day | Subject | Chapters | Time |\<newline>'' ''|  | 3 | Chapter 1-3 |  |'' =
     Inr (tableOpen [''Day'', ''Subject'', ''Chapters'', ''Time''] @ tableClose)"
  by code_simp

section \<open>A video link without an identifier\<close>

lemma getYouTubeEmbedUrl_invalid: "URL url = None \<Longrightarrow> getYouTubeEmbedUrl URL url = fallbackUrl"
  by (simp add: getYouTubeEmbedUrl_def)

lemma getYouTubeEmbedUrl_other_host:
  "URL url = Some u \<Longrightarrow> \<not> includesStr (hostname u) ''youtube.com'' \<Longrightarrow>
   hostname u \<noteq> ''youtu.be'' \<Longrightarrow> getYouTubeEmbedUrl URL url = fallbackUrl"
  by (simp add: getYouTubeEmbedUrl_def)

lemma getYouTubeEmbedUrl_no_v:
  "URL url = Some u \<Longrightarrow> map_of (searchParams u) ''v'' = None \<Longrightarrow>
   hostname u \<noteq> ''youtu.be'' \<Longrightarrow> getYouTubeEmbedUrl URL url = fallbackUrl"
  by (simp add: getYouTubeEmbedUrl_def)

lemma getYouTubeEmbedUrl_example:
  "URL ''https://example.com'' =
     Some \<lparr>hostname = ''example.com'', pathname = ''/'', searchParams = []\<rparr> \<Longrightarrow>
   getYouTubeEmbedUrl URL ''https://example.com'' = fallbackUrl"
  by (simp add: getYouTubeEmbedUrl_def includesStr_def)

text \<open>
  Claim C9 on the short link \<^verbatim>\<open>https://youtu.be/\<close>, which carries no identifier: the
  parser gives the host \<^verbatim>\<open>youtu.be\<close> and the path \<^verbatim>\<open>/\<close>, and the function returns the
  embed address with an empty identifier, not the fixed default.
\<close>

theorem short_link_without_identifier:
  assumes "URL ''https://youtu.be/'' =
             Some \<lparr>hostname = ''youtu.be'', pathname = ''/'', searchParams = []\<rparr>"
  shows "getYouTubeEmbedUrl URL ''https://youtu.be/'' = ''https://www.youtube.com/embed/'' \<and>
         getYouTubeEmbedUrl URL ''https://youtu.be/'' \<noteq> fallbackUrl"
  using assms by (simp add: getYouTubeEmbedUrl_def includesStr_def fallbackUrl_def)

theorem short_link_without_identifier_witness:
  "(\<lambda>url. if url = ''https://youtu.be/''
          then Some \<lparr>hostname = ''youtu.be'', pathname = ''/'', searchParams = []\<rparr>
          else None) ''https://youtu.be/'' =
     Some \<lparr>hostname = ''youtu.be'', pathname = ''/'', searchParams = []\<rparr> \<and>
   getYouTubeEmbedUrl
     (\<lambda>url. if url = ''https://youtu.be/''
            then Some \<lparr>hostname = ''youtu.be'', pathname = ''/'', searchParams = []\<rparr>
            else None) ''https://youtu.be/'' = ''https://www.youtube.com/embed/''"
  using short_link_without_identifier
    [of "\<lambda>url. if url = ''https://youtu.be/''
          then Some \<lparr>hostname = ''youtu.be'', pathname = ''/'', searchParams = []\<rparr>
          else None"]
  by simp

section \<open>The whole pipeline on two inputs\<close>

text \<open>
  Claim C6 on the input of two bullet lines: each item gets a list container of its own.
  The newline between the two containers keeps \<^verbatim>\<open></ul><ul>\<close> from occurring, so the
  merging pass removes nothing, and the newline is then turned into a line break.
\<close>

theorem two_bullets_two_lists:
  "MarkdownRenderer (JSString ''* a\<newline>* b'') =
     Inr ''<ul><li>a</li></ul><br><ul><li>b</li></ul>''"
  by code_simp

text \<open>
  Claim C2 on two fenced blocks. The later passes run over the rendered block, interior
  included: in \<^verbatim>\<open>```# a```\<close> the heading pass rewrites the interior (and swallows the
  closing tags of the block up to the end of the line), and the line-break pass rewrites
  the newlines; in a fenced block that holds the two table lines \<^verbatim>\<open>| a |\<close> and
  \<^verbatim>\<open>| b |\<close> the table pass turns the interior into an HTML table.
\<close>

theorem fenced_interior_is_rewritten:
  \<open>MarkdownRenderer (JSString ''```# a```'') =
     Inr ''<br>            <div style="background-color: #f8f9fa; border: 1px solid #e9ecef; border-radius: 0.25rem; padding: 1rem; overflow-x: auto; margin-top: 1rem; margin-bottom: 1rem;"><br>                <pre style="margin: 0; white-space: pre-wrap; word-wrap: break-word;"><code><h3>a</code></pre></h3><br>            </div><br>        '' \<and>
   fencedPass ''```| a |\<newline>| b |```'' = codeBlock ''| a |\<newline>| b |'' \<and>
   tablePass (codeBlock ''| a |\<newline>| b |'') =
     Inr (codeBlockOpen @
          tableOpen [''a''] @ ''<tr>'' @ td ''b'' @ td ''</code></pre>'' @ ''</tr>'' @ tableClose @
          ''\<newline>            </div>\<newline>        '')\<close>
  by code_simp

end
